theory Spec2Isabelle
  imports Main
begin

section \<open>Data model\<close>

text \<open>
  The grid of \<^verbatim>\<open>game.ts\<close>: a map from chunk coordinates to chunks, each chunk a square
  block of arrows. The classes \<^verbatim>\<open>Arrow\<close>, \<^verbatim>\<open>Chunk\<close>, \<^verbatim>\<open>GameMap\<close> and
  \<^verbatim>\<open>LogicNode\<close> are imported by \<^verbatim>\<open>game.ts\<close>; their fields are taken from the uses in
  \<^verbatim>\<open>game.ts\<close>.
\<close>

text \<open>Modelled from the spec: the constant \<^verbatim>\<open>CHUNK_SIZE\<close> imported from
  \<^verbatim>\<open>./logic/chunk\<close> (``fixed N x N (N=16) block of Cells'').\<close>

definition CHUNK_SIZE :: int where
  "CHUNK_SIZE = 16"

type_synonym chunk_pos = "int \<times> int"

text \<open>
  An \<^verbatim>\<open>Arrow\<close> object is identified with the place (chunk, x, y) that holds it:
  \<^verbatim>\<open>chunk.getArrow(x, y)\<close> hands out the object stored at that place. A \<^verbatim>\<open>LogicNode\<close>
  object is identified with a number.
\<close>

type_synonym arrow_ref = "chunk_pos \<times> int \<times> int"

type_synonym node_ref = nat

text \<open>Modelled from the spec: the value of \<^verbatim>\<open>arrow.copyState()\<close>
  (``previous-tick active+count'').\<close>

record arrow_state =
  stateActive :: bool
  stateSignalCount :: nat

record arrow =
  arrowType :: nat
  rotation :: nat
  flipped :: bool
  medalType :: nat
  active :: bool
  signalCount :: nat
  lastState :: arrow_state
  originalNode :: "node_ref option"
  node :: "node_ref option"
  offset :: nat

definition copyState :: "arrow \<Rightarrow> arrow_state" where
  "copyState a = \<lparr>stateActive = active a, stateSignalCount = signalCount a\<rparr>"

text \<open>
  \<^verbatim>\<open>map.chunks\<close> is a JavaScript \<^verbatim>\<open>Map\<close>: \<open>chunkList\<close> holds its keys in iteration order,
  \<open>cells\<close> the contents of every chunk.
\<close>

record game_map =
  chunkList :: "chunk_pos list"
  cells :: "chunk_pos \<Rightarrow> int \<Rightarrow> int \<Rightarrow> arrow"

definition getArrow :: "game_map \<Rightarrow> chunk_pos \<Rightarrow> int \<Rightarrow> int \<Rightarrow> arrow" where
  "getArrow g chunk x y = cells g chunk x y"

text \<open>Modelled from the spec: \<^verbatim>\<open>chunk.adjacentChunks\<close>, ``8 neighbor-chunk references
  (N,S,E,W,NE,NW,SE,SW), any of which may be absent''. The index of each compass direction is
  the one \<^verbatim>\<open>getArrowRelative\<close> uses for the matching overflow: 0 for \<open>y < 0\<close>, 2 for
  \<open>x \<ge> CHUNK_SIZE\<close>, 4 for \<open>y \<ge> CHUNK_SIZE\<close>, 6 for \<open>x < 0\<close>, the odd ones in between.\<close>

definition compass :: "nat \<Rightarrow> chunk_pos" where
  "compass i =
     (if i = 0 then (0, -1) else if i = 1 then (1, -1) else if i = 2 then (1, 0)
      else if i = 3 then (1, 1) else if i = 4 then (0, 1) else if i = 5 then (-1, 1)
      else if i = 6 then (-1, 0) else (-1, -1))"

definition adjacentChunks :: "game_map \<Rightarrow> chunk_pos \<Rightarrow> nat \<Rightarrow> chunk_pos option" where
  "adjacentChunks g chunk i =
     (let p = (fst chunk + fst (compass i), snd chunk + snd (compass i))
      in if p \<in> set (chunkList g) then Some p else None)"

section \<open>Connectivity resolver\<close>

text \<open>Lines 313--327 of \<^verbatim>\<open>getArrowRelative\<close>: mirroring and rotation of the offset.\<close>

definition getArrowRelative_turn :: "arrow \<Rightarrow> int \<Rightarrow> int \<Rightarrow> int \<Rightarrow> int \<Rightarrow> int \<times> int" where
  "getArrowRelative_turn a x y dx0 dy =
     (let dx = (if flipped a then - dx0 else dx0)
      in if rotation a = 0 then (x + dx, y + dy)
         else if rotation a = 1 then (x + dy, y - dx)
         else if rotation a = 2 then (x - dx, y - dy)
         else if rotation a = 3 then (x - dy, y + dx)
         else (x, y))"

text \<open>Lines 328--361 of \<^verbatim>\<open>getArrowRelative\<close>: the choice of the target chunk.\<close>

definition getArrowRelative_chunk ::
  "game_map \<Rightarrow> chunk_pos \<Rightarrow> int \<Rightarrow> int \<Rightarrow> chunk_pos option \<times> int \<times> int" where
  "getArrowRelative_chunk g chunk x y =
     (if x \<ge> CHUNK_SIZE then
        (if y \<ge> CHUNK_SIZE then (adjacentChunks g chunk 3, x - CHUNK_SIZE, y - CHUNK_SIZE)
         else if y < 0 then (adjacentChunks g chunk 1, x - CHUNK_SIZE, y + CHUNK_SIZE)
         else (adjacentChunks g chunk 2, x - CHUNK_SIZE, y))
      else if x < 0 then
        (if y < 0 then (adjacentChunks g chunk 7, x + CHUNK_SIZE, y + CHUNK_SIZE)
         else if y \<ge> CHUNK_SIZE then (adjacentChunks g chunk 5, x + CHUNK_SIZE, y - CHUNK_SIZE)
         else (adjacentChunks g chunk 6, x + CHUNK_SIZE, y))
      else if y < 0 then (adjacentChunks g chunk 0, x, y + CHUNK_SIZE)
      else if y \<ge> CHUNK_SIZE then (adjacentChunks g chunk 4, x, y - CHUNK_SIZE)
      else (Some chunk, x, y))"

text \<open>
  \<^verbatim>\<open>getArrowRelative\<close> returns \<^verbatim>\<open>[targetChunk, targetArrow, [x, y]]\<close> or nothing; the
  triple is the reference of the target arrow.
\<close>

definition getArrowRelative ::
  "game_map \<Rightarrow> chunk_pos \<Rightarrow> arrow \<Rightarrow> int \<Rightarrow> int \<Rightarrow> int \<Rightarrow> int \<Rightarrow> arrow_ref option" where
  "getArrowRelative g chunk a x y dx dy =
     (case getArrowRelative_turn a x y dx dy of (x1, y1) \<Rightarrow>
      case getArrowRelative_chunk g chunk x1 y1 of
        (None, x2, y2) \<Rightarrow> None
      | (Some targetChunk, x2, y2) \<Rightarrow>
          if arrowType (getArrow g targetChunk x2 y2) > 0
          then Some (targetChunk, x2, y2) else None)"

text \<open>Lines 150--164 and 165--198 of \<^verbatim>\<open>addTargetNode\<close>: the same two steps, written
  out a second time in the source.\<close>

definition addTargetNode_turn :: "arrow \<Rightarrow> int \<Rightarrow> int \<Rightarrow> int \<Rightarrow> int \<Rightarrow> int \<times> int" where
  "addTargetNode_turn a x y dx0 dy =
     (let dx = (if flipped a then - dx0 else dx0)
      in if rotation a = 0 then (x + dx, y + dy)
         else if rotation a = 1 then (x + dy, y - dx)
         else if rotation a = 2 then (x - dx, y - dy)
         else if rotation a = 3 then (x - dy, y + dx)
         else (x, y))"

definition addTargetNode_chunk ::
  "game_map \<Rightarrow> chunk_pos \<Rightarrow> int \<Rightarrow> int \<Rightarrow> chunk_pos option \<times> int \<times> int" where
  "addTargetNode_chunk g chunk x y =
     (if x \<ge> CHUNK_SIZE then
        (if y \<ge> CHUNK_SIZE then (adjacentChunks g chunk 3, x - CHUNK_SIZE, y - CHUNK_SIZE)
         else if y < 0 then (adjacentChunks g chunk 1, x - CHUNK_SIZE, y + CHUNK_SIZE)
         else (adjacentChunks g chunk 2, x - CHUNK_SIZE, y))
      else if x < 0 then
        (if y < 0 then (adjacentChunks g chunk 7, x + CHUNK_SIZE, y + CHUNK_SIZE)
         else if y \<ge> CHUNK_SIZE then (adjacentChunks g chunk 5, x + CHUNK_SIZE, y - CHUNK_SIZE)
         else (adjacentChunks g chunk 6, x + CHUNK_SIZE, y))
      else if y < 0 then (adjacentChunks g chunk 0, x, y + CHUNK_SIZE)
      else if y \<ge> CHUNK_SIZE then (adjacentChunks g chunk 4, x, y - CHUNK_SIZE)
      else (Some chunk, x, y))"

text \<open>The offset tables of \<^verbatim>\<open>getTargetArrows\<close> (lines 371--437), one branch per shape.\<close>

definition getTargetArrows_offsets :: "nat \<Rightarrow> (int \<times> int) list" where
  "getTargetArrows_offsets t =
     (if t = 1 then [(0, -1)]
      else if t = 2 then [(-1, 0), (1, 0)]
      else if t = 3 then [(0, -1), (1, 0)]
      else if t = 4 then [(-1, 0), (0, -1), (1, 0)]
      else if t = 5 then [(-1, 0), (1, 0), (0, -1), (0, 1)]
      else if t = 6 then [(0, -2)]
      else if t = 7 then [(1, -1)]
      else if t = 8 then [(0, -1), (1, -1)]
      else if t = 9 then [(0, -2), (1, 0)]
      else if t = 10 then [(-2, 0), (1, 0)]
      else if t = 11 then [(0, -1), (0, -2)]
      else if t = 12 then [(0, 0), (0, -1)]
      else if t = 13 then [(-1, 0), (0, 0), (1, 0)]
      else [])"

text \<open>
  \<^verbatim>\<open>getTargetArrows\<close> pushes the arrow of each offset and filters the undefined ones out.
\<close>

definition getTargetArrows ::
  "game_map \<Rightarrow> chunk_pos \<Rightarrow> arrow \<Rightarrow> int \<Rightarrow> int \<Rightarrow> arrow_ref list" where
  "getTargetArrows g chunk a x y =
     List.map_filter (\<lambda>(dx, dy). getArrowRelative g chunk a x y dx dy)
       (getTargetArrows_offsets (arrowType a))"

text \<open>The candidates of \<^verbatim>\<open>getSourceArrows\<close> (lines 442--456) after the arrow itself.\<close>

definition getSourceArrows_offsets :: "(int \<times> int) list" where
  "getSourceArrows_offsets =
     [(-1, 0), (1, 0), (0, 1), (0, -1), (-2, 0), (2, 0), (0, 2), (0, -2),
      (-1, 1), (1, 1), (-1, -1), (1, -1)]"

text \<open>
  \<^verbatim>\<open>getSourceArrows\<close>: the arrow itself and the arrows at the candidate offsets, kept when
  their own targets include the arrow. The arrow is the object at (chunk, x, y).
\<close>

definition getSourceArrows ::
  "game_map \<Rightarrow> chunk_pos \<Rightarrow> arrow \<Rightarrow> int \<Rightarrow> int \<Rightarrow> arrow_ref list" where
  "getSourceArrows g chunk a x y =
     filter (\<lambda>(sourceChunk, sourceX, sourceY).
               (chunk, x, y) \<in> set (getTargetArrows g sourceChunk
                                      (getArrow g sourceChunk sourceX sourceY) sourceX sourceY))
       ((chunk, x, y) #
        List.map_filter (\<lambda>(dx, dy). getArrowRelative g chunk a x y dx dy)
          getSourceArrows_offsets)"

text \<open>The arrow object of a reference.\<close>

definition getArrowAt :: "game_map \<Rightarrow> arrow_ref \<Rightarrow> arrow" where
  "getArrowAt g r = getArrow g (fst r) (fst (snd r)) (snd (snd r))"

section \<open>The cellular-automaton simulator\<close>

text \<open>The offsets of the \<^verbatim>\<open>sendSignal\<close> calls of \<^verbatim>\<open>updateCA\<close> (lines 503--543), one
  branch per shape, in the order of the calls.\<close>

definition updateCA_offsets :: "nat \<Rightarrow> (int \<times> int) list" where
  "updateCA_offsets t =
     (if t = 1 then [(0, -1)]
      else if t = 2 then [(-1, 0), (1, 0)]
      else if t = 3 then [(0, -1), (1, 0)]
      else if t = 4 then [(-1, 0), (0, -1), (1, 0)]
      else if t = 5 then [(-1, 0), (1, 0), (0, -1), (0, 1)]
      else if t = 6 then [(0, -2)]
      else if t = 7 then [(1, -1)]
      else if t = 8 then [(0, -1), (1, -1)]
      else if t = 9 then [(0, -2), (1, 0)]
      else if t = 10 then [(-2, 0), (1, 0)]
      else if t = 11 then [(0, -1), (0, -2)]
      else if t = 12 then [(0, 0), (0, -1)]
      else if t = 13 then [(-1, 0), (0, 0), (1, 0)]
      else [])"

text \<open>Writing to the fields of the arrow object at a place.\<close>

definition setArrow :: "game_map \<Rightarrow> arrow_ref \<Rightarrow> arrow \<Rightarrow> game_map" where
  "setArrow g r a =
     g\<lparr>cells := (\<lambda>chunk x y. if (chunk, x, y) = r then a else cells g chunk x y)\<rparr>"

text \<open>Modelled from the spec: \<^verbatim>\<open>sendSignal\<close>, imported from \<^verbatim>\<open>./logic/utils\<close>
  (``for each active cell, resolve its forward targets and increment each target's
  caSignalCount''); the target is resolved as \<^verbatim>\<open>getArrowRelative\<close> does.\<close>

definition sendSignal ::
  "game_map \<Rightarrow> chunk_pos \<Rightarrow> arrow \<Rightarrow> int \<Rightarrow> int \<Rightarrow> int \<Rightarrow> int \<Rightarrow> game_map" where
  "sendSignal g chunk a x y dx dy =
     (case getArrowRelative g chunk a x y dx dy of
        None \<Rightarrow> g
      | Some (targetChunk, tx, ty) \<Rightarrow>
          setArrow g (targetChunk, tx, ty)
            ((getArrow g targetChunk tx ty)
               \<lparr>signalCount := signalCount (getArrow g targetChunk tx ty) + 1\<rparr>))"

text \<open>
  The loop \<^verbatim>\<open>chunks.forEach\<close>, \<^verbatim>\<open>for y\<close>, \<^verbatim>\<open>for x\<close> that \<^verbatim>\<open>createNodes\<close>,
  \<^verbatim>\<open>simplifyNodes\<close> and both passes of \<^verbatim>\<open>updateCA\<close> share.
\<close>

definition forEachArrow ::
  "(chunk_pos \<Rightarrow> int \<Rightarrow> int \<Rightarrow> 's \<Rightarrow> 's) \<Rightarrow> chunk_pos list \<Rightarrow> 's \<Rightarrow> 's" where
  "forEachArrow body chunks s =
     fold (\<lambda>chunk. fold (\<lambda>y. fold (\<lambda>x. body chunk x y) [0..CHUNK_SIZE - 1]) [0..CHUNK_SIZE - 1])
       chunks s"

text \<open>Lines 501--544: the body of the first pass.\<close>

definition updateCA_send :: "chunk_pos \<Rightarrow> int \<Rightarrow> int \<Rightarrow> game_map \<Rightarrow> game_map" where
  "updateCA_send chunk x y g =
     (let a = getArrow g chunk x y
      in if arrowType a > 0 \<and> active a
         then fold (\<lambda>(dx, dy) g. sendSignal g chunk a x y dx dy) (updateCA_offsets (arrowType a)) g
         else g)"

text \<open>Lines 552--568: the new value of \<^verbatim>\<open>arrow.active\<close>; a branch that assigns nothing
  leaves the old value.\<close>

definition updateCA_active :: "nat \<Rightarrow> nat \<Rightarrow> bool \<Rightarrow> bool" where
  "updateCA_active medal n act =
     (if medal = 0 then n > 0
      else if medal = 1 then True
      else if medal = 2 then n = 0
      else if medal = 3 then n \<ge> 2
      else if medal = 4 then n mod 2 = 1
      else if medal = 5 then (if n > 0 then \<not> act else act)
      else if medal = 6 then (if n > 0 then n mod 2 = 0 else act)
      else act)"

text \<open>Lines 552--570: the three assignments to a non-empty arrow, in the order of the source.\<close>

definition updateCA_cell :: "arrow \<Rightarrow> arrow" where
  "updateCA_cell a0 =
     (let a1 = a0\<lparr>active := updateCA_active (medalType a0) (signalCount a0) (active a0)\<rparr>;
          a2 = a1\<lparr>lastState := copyState a1\<rparr>
      in a2\<lparr>signalCount := 0\<rparr>)"

definition updateCA_activate :: "chunk_pos \<Rightarrow> int \<Rightarrow> int \<Rightarrow> game_map \<Rightarrow> game_map" where
  "updateCA_activate chunk x y g =
     (let a = getArrow g chunk x y
      in if arrowType a > 0 then setArrow g (chunk, x, y) (updateCA_cell a) else g)"

definition updateCA_pass1 :: "game_map \<Rightarrow> game_map" where
  "updateCA_pass1 g = forEachArrow updateCA_send (chunkList g) g"

definition updateCA :: "game_map \<Rightarrow> game_map" where
  "updateCA g = (let g1 = updateCA_pass1 g in forEachArrow updateCA_activate (chunkList g1) g1)"

section \<open>The node simulator\<close>

text \<open>Modelled from the spec: the class \<^verbatim>\<open>LogicNode\<close> of \<^verbatim>\<open>./logic/node\<close> (``ordered
  sequence of owned Cells (arrows), size, logicFn, ready, targets, sources, and a
  fixed-capacity history signals of booleans with capacity size; per-tick scratch:
  signalCount, lastSignal, lastSignalCount''). The field \<^verbatim>\<open>type\<close> is \<open>nodeType\<close>,
  \<^verbatim>\<open>size\<close> is \<open>nodeSize\<close> and \<^verbatim>\<open>signalCount\<close> is \<open>nodeSignalCount\<close> here.\<close>

record logic_node =
  arrows :: "arrow_ref list"
  nodeType :: nat
  nodeSize :: nat
  ready :: bool
  targets :: "node_ref list"
  sources :: "node_ref list"
  signals :: "bool list"
  nodeSignalCount :: nat
  lastSignal :: bool
  lastSignalCount :: nat

text \<open>Modelled from the spec: the history \<^verbatim>\<open>signals\<close> with \<^verbatim>\<open>at\<close> and \<^verbatim>\<open>insert\<close>
  (``offset 0 = newest write point''; ``push active onto signals as the new newest entry
  (capacity size, oldest entry drops)''). A negative index counts from the end, and an entry
  outside the history reads as absent, which the conditions of \<^verbatim>\<open>updateNodes\<close> take as
  false.\<close>

definition signals_at :: "bool list \<Rightarrow> int \<Rightarrow> bool" where
  "signals_at xs i =
     (let j = (if i < 0 then int (length xs) + i else i)
      in if 0 \<le> j \<and> j < int (length xs) then xs ! nat j else False)"

definition signals_insert :: "bool \<Rightarrow> bool list \<Rightarrow> bool list" where
  "signals_insert v xs = take (length xs) (v # xs)"

text \<open>Lines 587--612: the \<^verbatim>\<open>switch\<close> of the second pass of \<^verbatim>\<open>updateNodes\<close>.\<close>

definition updateNodes_active :: "nat \<Rightarrow> nat \<Rightarrow> bool \<Rightarrow> bool" where
  "updateNodes_active type n lastSig =
     (let active = lastSig
      in if type = 0 then n > 0
         else if type = 1 then True
         else if type = 2 then n = 0
         else if type = 3 then n \<ge> 2
         else if type = 4 then n mod 2 = 1
         else if type = 5 then (if n > 0 then \<not> active else active)
         else if type = 6 then (if n > 0 then n mod 2 = 0 else active)
         else active)"

text \<open>Lines 587--615: the body of the second pass.\<close>

definition updateNodes_cell :: "logic_node \<Rightarrow> logic_node" where
  "updateNodes_cell n0 =
     (let active = updateNodes_active (nodeType n0) (nodeSignalCount n0) (lastSignal n0);
          n1 = n0\<lparr>signals := signals_insert active (signals n0)\<rparr>;
          n2 = n1\<lparr>lastSignalCount := nodeSignalCount n1\<rparr>
      in n2\<lparr>nodeSignalCount := 0\<rparr>)"

text \<open>Lines 577--585: the body of the first pass, on the store of node objects.\<close>

definition updateNodes_send :: "node_ref \<Rightarrow> (node_ref \<Rightarrow> logic_node) \<Rightarrow> node_ref \<Rightarrow> logic_node" where
  "updateNodes_send n h =
     (let h1 = h(n := (h n)\<lparr>lastSignal := signals_at (signals (h n)) 0\<rparr>)
      in if signals_at (signals (h1 n)) (-1)
         then fold (\<lambda>target h. h(target := (h target)\<lparr>nodeSignalCount := nodeSignalCount (h target) + 1\<rparr>))
                (targets (h1 n)) h1
         else h1)"

definition updateNodes_pass1 ::
  "node_ref list \<Rightarrow> (node_ref \<Rightarrow> logic_node) \<Rightarrow> node_ref \<Rightarrow> logic_node" where
  "updateNodes_pass1 nodeArray h = fold updateNodes_send nodeArray h"

definition updateNodes ::
  "node_ref list \<Rightarrow> (node_ref \<Rightarrow> logic_node) \<Rightarrow> node_ref \<Rightarrow> logic_node" where
  "updateNodes nodeArray h =
     fold (\<lambda>n h. h(n := updateNodes_cell (h n))) nodeArray (updateNodes_pass1 nodeArray h)"

section \<open>The graph compiler\<close>

text \<open>Modelled from the spec: the constructor \<^verbatim>\<open>new LogicNode(arrows, type, size)\<close>
  and the methods \<^verbatim>\<open>copy\<close> and \<^verbatim>\<open>resize\<close> of \<^verbatim>\<open>LogicNode\<close> (``size = length of
  sequence'', ``history signals of booleans with capacity size'', ``resizing a node
  reallocates history, preserving the most recent size values in order''). A new node has no
  edges, is not ready and has an all-false history; a copy is a new node with the arrows, the
  logic function and the size of the original.\<close>

definition newLogicNode :: "arrow_ref list \<Rightarrow> nat \<Rightarrow> nat \<Rightarrow> logic_node" where
  "newLogicNode as t n =
     \<lparr>arrows = as, nodeType = t, nodeSize = n, ready = False, targets = [], sources = [],
      signals = replicate n False, nodeSignalCount = 0, lastSignal = False, lastSignalCount = 0\<rparr>"

definition copy :: "logic_node \<Rightarrow> logic_node" where
  "copy nd = newLogicNode (arrows nd) (nodeType nd) (nodeSize nd)"

definition resize :: "nat \<Rightarrow> logic_node \<Rightarrow> logic_node" where
  "resize n nd =
     nd\<lparr>nodeSize := n, signals := take n (signals nd @ replicate (n - length (signals nd)) False)\<rparr>"

text \<open>
  The fields of \<^verbatim>\<open>Game\<close> that the compiler and the simulators use. \<open>heap\<close> holds the
  \<^verbatim>\<open>LogicNode\<close> objects, \<open>allocated\<close> counts them; \<open>nodes\<close> is the \<^verbatim>\<open>Set\<close>
  \<^verbatim>\<open>this.nodes\<close> in insertion order and \<open>simplifiedNodes\<close> the \<^verbatim>\<open>WeakMap\<close>.
\<close>

record game =
  gameMap :: game_map
  heap :: "node_ref \<Rightarrow> logic_node"
  allocated :: nat
  nodes :: "node_ref list"
  nodeArray :: "node_ref list"
  simplifiedNodes :: "node_ref \<Rightarrow> node_ref option"

definition allocate :: "game \<Rightarrow> logic_node \<Rightarrow> game \<times> node_ref" where
  "allocate s nd = (s\<lparr>heap := (heap s)(allocated s := nd), allocated := Suc (allocated s)\<rparr>, allocated s)"

text \<open>\<^verbatim>\<open>Set.add\<close> and \<^verbatim>\<open>Set.delete\<close> on the insertion-ordered elements.\<close>

definition set_add :: "'a \<Rightarrow> 'a list \<Rightarrow> 'a list" where
  "set_add x xs = (if x \<in> set xs then xs else xs @ [x])"

definition set_delete :: "'a \<Rightarrow> 'a list \<Rightarrow> 'a list" where
  "set_delete x xs = removeAll x xs"

text \<open>Assignments to the fields of an arrow object and of a node object.\<close>

definition updArrow :: "game \<Rightarrow> arrow_ref \<Rightarrow> (arrow \<Rightarrow> arrow) \<Rightarrow> game" where
  "updArrow s r f = s\<lparr>gameMap := setArrow (gameMap s) r (f (getArrowAt (gameMap s) r))\<rparr>"

definition updNode :: "game \<Rightarrow> node_ref \<Rightarrow> (logic_node \<Rightarrow> logic_node) \<Rightarrow> game" where
  "updNode s n f = s\<lparr>heap := (heap s)(n := f (heap s n))\<rparr>"

text \<open>The offsets of the \<^verbatim>\<open>addTargetNode\<close> calls of \<^verbatim>\<open>createNode\<close> (lines 218--258),
  one branch per shape, in the order of the calls.\<close>

definition createNode_offsets :: "nat \<Rightarrow> (int \<times> int) list" where
  "createNode_offsets t =
     (if t = 1 then [(0, -1)]
      else if t = 2 then [(-1, 0), (1, 0)]
      else if t = 3 then [(0, -1), (1, 0)]
      else if t = 4 then [(-1, 0), (0, -1), (1, 0)]
      else if t = 5 then [(-1, 0), (1, 0), (0, -1), (0, 1)]
      else if t = 6 then [(0, -2)]
      else if t = 7 then [(1, -1)]
      else if t = 8 then [(0, -1), (1, -1)]
      else if t = 9 then [(0, -2), (1, 0)]
      else if t = 10 then [(-2, 0), (1, 0)]
      else if t = 11 then [(0, -1), (0, -2)]
      else if t = 12 then [(0, 0), (0, -1)]
      else if t = 13 then [(-1, 0), (0, 0), (1, 0)]
      else [])"

text \<open>
  \<^verbatim>\<open>createNode\<close> (lines 208--260) and \<^verbatim>\<open>addTargetNode\<close> (lines 149--206) call each
  other; \<open>addTargetNodes\<close> makes the calls of one branch of \<^verbatim>\<open>createNode\<close> one after
  the other. The recursion follows the arrows of the grid, so the functions take fuel, and
  \<open>None\<close> is a run that needs more. The inner option of \<open>createNode\<close> is the node it
  returns, nothing for an empty cell.
\<close>

function (sequential) createNode :: "nat \<Rightarrow> game \<Rightarrow> chunk_pos \<Rightarrow> int \<Rightarrow> int \<Rightarrow> (game \<times> node_ref option) option"
and addTargetNodes ::
  "nat \<Rightarrow> game \<Rightarrow> node_ref \<Rightarrow> chunk_pos \<Rightarrow> arrow \<Rightarrow> int \<Rightarrow> int \<Rightarrow> (int \<times> int) list \<Rightarrow> game option"
and addTargetNode ::
  "nat \<Rightarrow> game \<Rightarrow> node_ref \<Rightarrow> chunk_pos \<Rightarrow> arrow \<Rightarrow> int \<Rightarrow> int \<Rightarrow> int \<Rightarrow> int \<Rightarrow> game option"
where
  "createNode 0 s chunk x y = None"
| "createNode (Suc fuel) s chunk x y =
     (let arrow = getArrow (gameMap s) chunk x y
      in if arrowType arrow = 0 then Some (s, None)
         else case originalNode arrow of
           Some existing \<Rightarrow> Some (s, Some existing)
         | None \<Rightarrow>
            (case allocate s (newLogicNode [(chunk, x, y)] (medalType arrow) 1) of
               (s1, nd) \<Rightarrow>
                 (case addTargetNodes fuel
                         (updArrow s1 (chunk, x, y)
                            (\<lambda>a. a\<lparr>originalNode := Some nd, arrow.node := Some nd, offset := 0\<rparr>))
                         nd chunk arrow x y (createNode_offsets (arrowType arrow)) of
                    None \<Rightarrow> None
                  | Some s3 \<Rightarrow> Some (s3, Some nd))))"
| "addTargetNodes fuel s nd chunk arrow x y [] = Some s"
| "addTargetNodes fuel s nd chunk arrow x y (d # ds) =
     (case addTargetNode fuel s nd chunk arrow x y (fst d) (snd d) of
        None \<Rightarrow> None
      | Some s' \<Rightarrow> addTargetNodes fuel s' nd chunk arrow x y ds)"
| "addTargetNode fuel s nd chunk arrow x y dx dy =
     (case addTargetNode_turn arrow x y dx dy of
        (x1, y1) \<Rightarrow>
          (case addTargetNode_chunk (gameMap s) chunk x1 y1 of
             (None, x2, y2) \<Rightarrow> Some s
           | (Some targetChunk, x2, y2) \<Rightarrow>
               (case createNode fuel s targetChunk x2 y2 of
                  None \<Rightarrow> None
                | Some (s', None) \<Rightarrow> Some s'
                | Some (s', Some target) \<Rightarrow>
                    Some (updNode (updNode s' nd (\<lambda>n. n\<lparr>targets := targets n @ [target]\<rparr>))
                            target (\<lambda>n. n\<lparr>sources := sources n @ [nd]\<rparr>)))))"
  by pat_completeness auto

termination
  by (relation "inv_image (less_than <*lex*> less_than <*lex*> less_than)
        (\<lambda>v. case v of
           Inl (fuel, s, chunk, x, y) \<Rightarrow> (fuel, 0, 0)
         | Inr (Inl (fuel, s, nd, chunk, a, x, y, ds)) \<Rightarrow> (fuel, 2, length ds)
         | Inr (Inr (fuel, s, nd, chunk, a, x, y, dx, dy)) \<Rightarrow> (fuel, 1, 0))")
    auto

text \<open>\<^verbatim>\<open>createNodes\<close> (lines 141--147).\<close>

definition createNodes :: "nat \<Rightarrow> game \<Rightarrow> game option" where
  "createNodes fuel s =
     forEachArrow
       (\<lambda>chunk x y r. case r of None \<Rightarrow> None
                       | Some s' \<Rightarrow> map_option fst (createNode fuel s' chunk x y))
       (chunkList (gameMap s)) (Some s)"

text \<open>Lines 294--299 of \<^verbatim>\<open>simplifyNode\<close>: the node takes over its target.\<close>

definition fuse :: "game \<Rightarrow> node_ref \<Rightarrow> node_ref \<Rightarrow> node_ref \<Rightarrow> game" where
  "fuse s nd simplified simplifiedTarget =
     (let s1 = s\<lparr>nodes := set_delete simplifiedTarget (nodes s)\<rparr>;
          s2 = updNode s1 simplified
                 (resize (nodeSize (heap s1 nd) + nodeSize (heap s1 simplifiedTarget)));
          s3 = updNode s2 simplified (\<lambda>n. n\<lparr>arrows := arrows n @ arrows (heap s2 simplifiedTarget)\<rparr>);
          s4 = updNode s3 simplified (\<lambda>n. n\<lparr>targets := targets n @ targets (heap s3 simplifiedTarget)\<rparr>)
      in fold (\<lambda>r s'. updArrow s' r (\<lambda>a. a\<lparr>offset := offset a + nodeSize (heap s' nd)\<rparr>))
           (arrows (heap s4 simplifiedTarget)) s4)"

text \<open>
  \<^verbatim>\<open>simplifyNode\<close> (lines 282--310); \<open>simplifyTargets\<close> is the loop of its last branch
  (lines 304--306). The recursion follows the edges of the graph and takes fuel.
\<close>

function (sequential) simplifyNode :: "nat \<Rightarrow> game \<Rightarrow> node_ref \<Rightarrow> (game \<times> node_ref) option"
and simplifyTargets :: "nat \<Rightarrow> game \<Rightarrow> node_ref \<Rightarrow> node_ref list \<Rightarrow> game option"
where
  "simplifyNode 0 s nd = None"
| "simplifyNode (Suc fuel) s nd =
     (case simplifiedNodes s nd of
        Some existing \<Rightarrow> Some (s, existing)
      | None \<Rightarrow>
         (case allocate s (copy (heap s nd)) of
            (s1, simplified) \<Rightarrow>
              (case
                 (let s2 = s1\<lparr>simplifiedNodes :=
                                 (simplifiedNodes s1)(nd \<mapsto> simplified, simplified \<mapsto> simplified),
                               nodes := set_add simplified (nodes s1)\<rparr>
                  in if length (targets (heap s2 nd)) = 1
                     then (case simplifyNode fuel s2 (hd (targets (heap s2 nd))) of
                             None \<Rightarrow> None
                           | Some (s3, simplifiedTarget) \<Rightarrow>
                               if nodeType (heap s3 (hd (targets (heap s2 nd)))) = 0
                                  \<and> length (sources (heap s3 (hd (targets (heap s2 nd))))) = 1
                                  \<and> ready (heap s3 simplifiedTarget)
                               then Some (fuse s3 nd simplified simplifiedTarget)
                               else Some (updNode s3 simplified
                                            (\<lambda>n. n\<lparr>targets := targets n @ [simplifiedTarget]\<rparr>)))
                     else simplifyTargets fuel s2 simplified (targets (heap s2 nd))) of
                 None \<Rightarrow> None
               | Some s4 \<Rightarrow> Some (updNode s4 simplified (\<lambda>n. n\<lparr>ready := True\<rparr>), simplified))))"
| "simplifyTargets fuel s simplified [] = Some s"
| "simplifyTargets fuel s simplified (target # ts) =
     (case simplifyNode fuel s target of
        None \<Rightarrow> None
      | Some (s', simplifiedTarget) \<Rightarrow>
          simplifyTargets fuel
            (updNode s' simplified (\<lambda>n. n\<lparr>targets := targets n @ [simplifiedTarget]\<rparr>))
            simplified ts)"
  by pat_completeness auto

termination
  by (relation "inv_image (less_than <*lex*> less_than <*lex*> less_than)
        (\<lambda>v. case v of
           Inl (fuel, s, nd) \<Rightarrow> (fuel, 0, 0)
         | Inr (fuel, s, simplified, ts) \<Rightarrow> (fuel, 1, length ts))")
    auto

text \<open>\<^verbatim>\<open>simplifyNodes\<close> (lines 262--280).\<close>

definition simplifyNodes :: "nat \<Rightarrow> game \<Rightarrow> game option" where
  "simplifyNodes fuel s =
     (case forEachArrow
             (\<lambda>chunk x y r. case r of None \<Rightarrow> None
                | Some s' \<Rightarrow>
                    (case arrow.node (getArrow (gameMap s') chunk x y) of
                       None \<Rightarrow> Some s'
                     | Some nd \<Rightarrow> map_option fst (simplifyNode fuel s' nd)))
             (chunkList (gameMap s)) (Some (s\<lparr>simplifiedNodes := Map.empty\<rparr>)) of
        None \<Rightarrow> None
      | Some s1 \<Rightarrow>
          (let s2 = s1\<lparr>simplifiedNodes := Map.empty\<rparr>;
               s3 = fold (\<lambda>nd s'.
                      fold (\<lambda>target s''. updNode s'' target (\<lambda>n. n\<lparr>sources := sources n @ [nd]\<rparr>))
                        (targets (heap s' nd))
                        (fold (\<lambda>r s''. updArrow s'' r (\<lambda>a. a\<lparr>arrow.node := Some nd\<rparr>))
                           (arrows (heap s' nd)) s'))
                      (nodes s2) s2
           in Some (s3\<lparr>nodeArray := nodes s3\<rparr>)))"

section \<open>Example grids\<close>

text \<open>An empty cell, a placed arrow that has not run yet, and the grid of the listed chunks
  that holds the listed arrows.\<close>

definition emptyArrow :: arrow where
  "emptyArrow = \<lparr>arrowType = 0, rotation = 0, flipped = False, medalType = 0, active = False,
     signalCount = 0, lastState = \<lparr>stateActive = False, stateSignalCount = 0\<rparr>,
     originalNode = None, arrow.node = None, offset = 0\<rparr>"

definition placedArrow :: "nat \<Rightarrow> nat \<Rightarrow> bool \<Rightarrow> nat \<Rightarrow> arrow" where
  "placedArrow t r f m = emptyArrow\<lparr>arrowType := t, rotation := r, flipped := f, medalType := m\<rparr>"

definition gridOf :: "chunk_pos list \<Rightarrow> (arrow_ref \<times> arrow) list \<Rightarrow> game_map" where
  "gridOf chunks placed =
     \<lparr>chunkList = chunks,
      cells = (\<lambda>chunk x y. case map_of placed (chunk, x, y) of Some a \<Rightarrow> a | None \<Rightarrow> emptyArrow)\<rparr>"

text \<open>The game after \<^verbatim>\<open>load\<close>, and \<^verbatim>\<open>createNodes\<close> followed by
  \<^verbatim>\<open>simplifyNodes\<close> as \<^verbatim>\<open>start\<close> runs them.\<close>

definition newGame :: "game_map \<Rightarrow> game" where
  "newGame g = \<lparr>gameMap = g, heap = (\<lambda>n. newLogicNode [] 0 0), allocated = 0, nodes = [],
     nodeArray = [], simplifiedNodes = Map.empty\<rparr>"

definition compile :: "nat \<Rightarrow> game_map \<Rightarrow> game option" where
  "compile fuel g = Option.bind (createNodes fuel (newGame g)) (simplifyNodes fuel)"

text \<open>A shape-5 arrow with an arrow on each of its four sides, each pointing away.\<close>

definition branchMap :: game_map where
  "branchMap = gridOf [(0, 0)]
     [(((0, 0), 5, 5), placedArrow 5 0 False 0), (((0, 0), 4, 5), placedArrow 1 1 False 0),
      (((0, 0), 6, 5), placedArrow 1 3 False 0), (((0, 0), 5, 4), placedArrow 1 0 False 0),
      (((0, 0), 5, 6), placedArrow 1 2 False 0)]"

text \<open>Two chunks side by side: an arrow on the east edge of the first points at an inverter
  on the west edge of the second.\<close>

definition edgeMap :: game_map where
  "edgeMap = gridOf [(0, 0), (1, 0)]
     [(((0, 0), 15, 3), placedArrow 1 3 False 0), (((1, 0), 0, 3), placedArrow 1 3 False 2)]"

text \<open>A constant source that has not run yet.\<close>

definition sourceMap :: game_map where
  "sourceMap = gridOf [(0, 0)] [(((0, 0), 2, 2), placedArrow 1 0 False 1)]"

section \<open>Notions used in the statements\<close>

definition mirror :: "bool \<Rightarrow> int \<times> int \<Rightarrow> int \<times> int" where
  "mirror m d = (if m then (- fst d, snd d) else d)"

definition rot90 :: "int \<times> int \<Rightarrow> int \<times> int" where
  "rot90 d = (snd d, - fst d)"

definition turned :: "arrow \<Rightarrow> int \<times> int \<Rightarrow> int \<times> int" where
  "turned a d = (rot90 ^^ rotation a) (mirror (flipped a) d)"

definition overflow :: "int \<Rightarrow> int" where
  "overflow x = (if x \<ge> CHUNK_SIZE then 1 else if x < 0 then -1 else 0)"

definition world :: "arrow_ref \<Rightarrow> int \<times> int" where
  "world r = (CHUNK_SIZE * fst (fst r) + fst (snd r), CHUNK_SIZE * snd (fst r) + snd (snd r))"

definition inChunk :: "int \<Rightarrow> int \<Rightarrow> bool" where
  "inChunk x y \<longleftrightarrow> 0 \<le> x \<and> x < CHUNK_SIZE \<and> 0 \<le> y \<and> y < CHUNK_SIZE"

definition near :: "int \<times> int \<Rightarrow> bool" where
  "near d \<longleftrightarrow> \<bar>fst d\<bar> + \<bar>snd d\<bar> \<le> 2"

definition turn_vec :: "arrow \<Rightarrow> int \<times> int \<Rightarrow> int \<times> int" where
  "turn_vec a d = getArrowRelative_turn a 0 0 (fst d) (snd d)"

definition allArrows :: "chunk_pos list \<Rightarrow> arrow_ref list" where
  "allArrows chunks =
     map (\<lambda>(chunk, y, x). (chunk, x, y))
       (List.product chunks (List.product [0..CHUNK_SIZE - 1] [0..CHUNK_SIZE - 1]))"

definition sameButCount :: "arrow \<Rightarrow> arrow \<Rightarrow> bool" where
  "sameButCount a a' \<longleftrightarrow>
     arrowType a' = arrowType a \<and> rotation a' = rotation a \<and> flipped a' = flipped a
     \<and> medalType a' = medalType a \<and> active a' = active a \<and> lastState a' = lastState a
     \<and> originalNode a' = originalNode a \<and> node a' = node a \<and> offset a' = offset a"

definition sameShape :: "game_map \<Rightarrow> game_map \<Rightarrow> bool" where
  "sameShape g g' \<longleftrightarrow> chunkList g' = chunkList g \<and>
     (\<forall>r. sameButCount (getArrowAt g r) (getArrowAt g' r))"

definition resolve :: "game_map \<Rightarrow> arrow_ref \<Rightarrow> int \<times> int \<Rightarrow> arrow_ref option" where
  "resolve g s d = getArrowRelative g (fst s) (getArrowAt g s) (fst (snd s)) (snd (snd s)) (fst d) (snd d)"

definition sendsOf :: "game_map \<Rightarrow> arrow_ref \<Rightarrow> (arrow_ref \<times> (int \<times> int)) list" where
  "sendsOf g s =
     (if arrowType (getArrowAt g s) > 0 \<and> active (getArrowAt g s)
      then map (Pair s) (updateCA_offsets (arrowType (getArrowAt g s))) else [])"

definition received :: "game_map \<Rightarrow> arrow_ref list \<Rightarrow> arrow_ref \<Rightarrow> nat" where
  "received g rs r =
     length (filter (\<lambda>(s, d). resolve g s d = Some r) (concat (map (sendsOf g) rs)))"










section \<open>Properties\<close>

subsection \<open>The example grids\<close>

lemma placedArrow_fields:
  "arrowType (placedArrow t r f m) = t" "rotation (placedArrow t r f m) = r"
  "flipped (placedArrow t r f m) = f" "medalType (placedArrow t r f m) = m"
  "active (placedArrow t r f m) = False" "signalCount (placedArrow t r f m) = 0"
  by (simp_all add: placedArrow_def emptyArrow_def)

lemma edgeMap_cells:
  "getArrow edgeMap (0, 0) 15 3 = placedArrow 1 3 False 0"
  "getArrow edgeMap (1, 0) 0 3 = placedArrow 1 3 False 2"
  "chunkList edgeMap = [(0, 0), (1, 0)]"
  by (simp_all add: edgeMap_def gridOf_def getArrow_def)

lemma sourceMap_cells:
  "getArrow sourceMap (0, 0) 2 2 = placedArrow 1 0 False 1"
  "chunkList sourceMap = [(0, 0)]"
  by (simp_all add: sourceMap_def gridOf_def getArrow_def)

subsection \<open>Mirroring and rotation\<close>

lemma rot90_pow: "(rot90 ^^ 0) d = d" "(rot90 ^^ 1) d = (snd d, - fst d)"
  "(rot90 ^^ 2) d = (- fst d, - snd d)" "(rot90 ^^ 3) d = (- snd d, fst d)"
  by (simp_all add: rot90_def eval_nat_numeral)

lemma lt4: "(n::nat) < 4 \<Longrightarrow> n = 0 \<or> n = 1 \<or> n = 2 \<or> n = 3" by arith

text \<open>
  Claim C6. For every offset, every rotation in 0..3 and either mirror flag, the place that
  \<^verbatim>\<open>getArrowRelative\<close> steps to is the arrow's place plus the offset mirrored first (the
  lateral component negated when the arrow is flipped) and then turned \<open>rotation\<close> times by
  \<open>rot90\<close>; \<^verbatim>\<open>addTargetNode\<close> steps to the same place; rotation 2 negates both
  components; and \<open>rot90\<close> is a right-angle rotation: it keeps inner products and the
  orientation, and sends every vector to one orthogonal to it.
\<close>

theorem turn_is_mirror_then_rotate:
  assumes "rotation a < 4"
  shows "getArrowRelative_turn a x y dx dy =
           (x + fst (turned a (dx, dy)), y + snd (turned a (dx, dy)))
         \<and> addTargetNode_turn a x y dx dy = getArrowRelative_turn a x y dx dy
         \<and> (rotation a = 2 \<longrightarrow> turned a (dx, dy) =
              (- fst (mirror (flipped a) (dx, dy)), - snd (mirror (flipped a) (dx, dy))))
         \<and> fst (rot90 (dx, dy)) * fst (rot90 (ex, ey)) + snd (rot90 (dx, dy)) * snd (rot90 (ex, ey))
             = dx * ex + dy * ey
         \<and> fst (rot90 (dx, dy)) * snd (rot90 (ex, ey)) - snd (rot90 (dx, dy)) * fst (rot90 (ex, ey))
             = dx * ey - dy * ex
         \<and> dx * fst (rot90 (dx, dy)) + dy * snd (rot90 (dx, dy)) = 0"
  using lt4[OF assms]
  by (auto simp: getArrowRelative_turn_def addTargetNode_turn_def turned_def mirror_def rot90_pow Let_def rot90_def algebra_simps)

text \<open>A flipped arrow of rotation 3 at (5, 5) with the offset (1, -2).\<close>

theorem turn_is_mirror_then_rotate_witness:
  "rotation (placedArrow 1 3 True 0) < 4
   \<and> getArrowRelative_turn (placedArrow 1 3 True 0) 5 5 1 (- 2) = (7, 4)
   \<and> addTargetNode_turn (placedArrow 1 3 True 0) 5 5 1 (- 2) = (7, 4)"
  using turn_is_mirror_then_rotate[of "placedArrow 1 3 True 0" 5 5 1 "- 2" 0 0]
  by (simp add: placedArrow_fields turned_def mirror_def rot90_pow)

subsection \<open>Chunk borders\<close>

lemma getArrowRelative_chunk_overflow:
  "getArrowRelative_chunk g chunk x y =
     ((if overflow x = 0 \<and> overflow y = 0 then Some chunk
       else if (fst chunk + overflow x, snd chunk + overflow y) \<in> set (chunkList g)
            then Some (fst chunk + overflow x, snd chunk + overflow y) else None),
      x - CHUNK_SIZE * overflow x, y - CHUNK_SIZE * overflow y)"
  by (simp add: getArrowRelative_chunk_def overflow_def adjacentChunks_def compass_def CHUNK_SIZE_def)

lemma overflow_range:
  "- CHUNK_SIZE \<le> x \<Longrightarrow> x < 2 * CHUNK_SIZE \<Longrightarrow>
   0 \<le> x - CHUNK_SIZE * overflow x \<and> x - CHUNK_SIZE * overflow x < CHUNK_SIZE"
  by (simp add: overflow_def CHUNK_SIZE_def)





lemma in_set_map_filter:
  "y \<in> set (List.map_filter f xs) \<longleftrightarrow> (\<exists>x \<in> set xs. f x = Some y)"
  by (induction xs) (auto split: option.splits)

lemma getTargetArrows_iff:
  "c \<in> set (getTargetArrows g chunk a x y) \<longleftrightarrow>
     (\<exists>dx dy. (dx, dy) \<in> set (getTargetArrows_offsets (arrowType a))
        \<and> getArrowRelative g chunk a x y dx dy = Some c)"
  by (auto simp: getTargetArrows_def in_set_map_filter split: prod.splits)

lemma getSourceArrows_iff:
  "s \<in> set (getSourceArrows g chunk a x y) \<longleftrightarrow>
     (s = (chunk, x, y) \<or>
      (\<exists>dx dy. (dx, dy) \<in> set getSourceArrows_offsets
         \<and> getArrowRelative g chunk a x y dx dy = Some s))
     \<and> (chunk, x, y) \<in> set (getTargetArrows g (fst s)
                                (getArrow g (fst s) (fst (snd s)) (snd (snd s)))
                                (fst (snd s)) (snd (snd s)))"
  by (auto simp: getSourceArrows_def in_set_map_filter split: prod.splits)



subsection \<open>Sources and targets\<close>

lemma turn_as_vec:
  "getArrowRelative_turn a x y dx dy = (x + fst (turn_vec a (dx, dy)), y + snd (turn_vec a (dx, dy)))"
  by (simp add: turn_vec_def getArrowRelative_turn_def Let_def)

lemma split16:
  fixes x :: int
  assumes "0 \<le> x" "x < 16" "0 \<le> x'" "x' < 16" "16 * c + x = 16 * c' + x'"
  shows "c = c' \<and> x = x'"
proof -
  have "c = c'"
  proof (cases c c' rule: linorder_cases)
    case less with assms show ?thesis by linarith
  next
    case greater with assms show ?thesis by linarith
  qed simp
  with assms show ?thesis by simp
qed

lemma world_inj:
  assumes "inChunk x y" "inChunk x' y'" "world (c, x, y) = world (c', x', y')"
  shows "c = c' \<and> x = x' \<and> y = y'"
proof -
  from assms have "fst c = fst c' \<and> x = x'"
    unfolding inChunk_def world_def CHUNK_SIZE_def by (intro split16) simp_all
  moreover from assms have "snd c = snd c' \<and> y = y'"
    unfolding inChunk_def world_def CHUNK_SIZE_def by (intro split16) simp_all
  ultimately show ?thesis by (simp add: prod_eq_iff)
qed

lemma near_turn_vec: "near d \<Longrightarrow> near (turn_vec a d)"
  by (auto simp: near_def turn_vec_def getArrowRelative_turn_def Let_def)

lemma near_bound: "near d \<Longrightarrow> \<bar>fst d\<bar> \<le> 2 \<and> \<bar>snd d\<bar> \<le> 2"
  by (auto simp: near_def)

lemma getArrowRelative_world:
  assumes xy: "inChunk x y" and d: "near (dx, dy)"
  shows "getArrowRelative g chunk a x y dx dy = Some (tc, tx, ty) \<longleftrightarrow>
           inChunk tx ty \<and> (tc = chunk \<or> tc \<in> set (chunkList g))
           \<and> arrowType (getArrow g tc tx ty) > 0
           \<and> world (tc, tx, ty) = (fst (world (chunk, x, y)) + fst (turn_vec a (dx, dy)),
                                    snd (world (chunk, x, y)) + snd (turn_vec a (dx, dy)))"
    (is "?L \<longleftrightarrow> ?R")
proof -
  define v where "v = turn_vec a (dx, dy)"
  define x1 where "x1 = x + fst v"
  define y1 where "y1 = y + snd v"
  have t: "getArrowRelative_turn a x y dx dy = (x1, y1)"
    by (simp add: turn_as_vec v_def x1_def y1_def)
  from near_bound[OF near_turn_vec[OF d, of a]] have vb: "\<bar>fst v\<bar> \<le> 2" "\<bar>snd v\<bar> \<le> 2"
    by (simp_all add: v_def)
  with xy have r1: "- CHUNK_SIZE \<le> x1" "x1 < 2 * CHUNK_SIZE" "- CHUNK_SIZE \<le> y1" "y1 < 2 * CHUNK_SIZE"
    by (auto simp: inChunk_def CHUNK_SIZE_def x1_def y1_def)
  define x2 where "x2 = x1 - CHUNK_SIZE * overflow x1"
  define y2 where "y2 = y1 - CHUNK_SIZE * overflow y1"
  define c2 where "c2 = (fst chunk + overflow x1, snd chunk + overflow y1)"
  have in2: "inChunk x2 y2"
    using overflow_range[OF r1(1,2)] overflow_range[OF r1(3,4)]
    by (simp add: inChunk_def x2_def y2_def)
  have w2: "world (c2, x2, y2) = (fst (world (chunk, x, y)) + fst v, snd (world (chunk, x, y)) + snd v)"
    by (simp add: world_def c2_def x2_def y2_def x1_def y1_def algebra_simps)
  have same: "overflow x1 = 0 \<and> overflow y1 = 0 \<longleftrightarrow> c2 = chunk"
    by (auto simp: c2_def prod_eq_iff)
  have L: "?L \<longleftrightarrow> (c2 = chunk \<or> c2 \<in> set (chunkList g)) \<and> arrowType (getArrow g c2 x2 y2) > 0
                   \<and> (tc, tx, ty) = (c2, x2, y2)"
    unfolding getArrowRelative_def t
    by (auto simp: getArrowRelative_chunk_overflow x2_def[symmetric] y2_def[symmetric]
          c2_def[symmetric] same split: if_splits)
  show ?thesis
  proof
    assume ?L
    with L in2 w2 show ?R by (auto simp: v_def)
  next
    assume R: ?R
    then have "world (tc, tx, ty) = world (c2, x2, y2)" by (simp add: w2 v_def)
    with world_inj[of tx ty x2 y2 tc c2] R in2 have "(tc, tx, ty) = (c2, x2, y2)" by simp
    with R L show ?L by auto
  qed
qed

lemma offsets_near: "d \<in> set (getTargetArrows_offsets t) \<Longrightarrow> near d"
  by (auto simp: getTargetArrows_offsets_def near_def split: if_splits)

lemma near_cases:
  assumes "near d"
  shows "d = (0, 0) \<or> d \<in> set getSourceArrows_offsets"
proof -
  obtain dx dy where d: "d = (dx, dy)" by (cases d)
  from assms d have b: "\<bar>dx\<bar> + \<bar>dy\<bar> \<le> 2"
    by (simp add: near_def)
  then have "dx = -2 \<or> dx = -1 \<or> dx = 0 \<or> dx = 1 \<or> dx = 2" by linarith
  moreover from b have "dy = -2 \<or> dy = -1 \<or> dy = 0 \<or> dy = 1 \<or> dy = 2" by linarith
  ultimately show ?thesis using b unfolding d getSourceArrows_offsets_def
    by (elim disjE) simp_all
qed

lemma sources_near: "d \<in> set getSourceArrows_offsets \<Longrightarrow> near d"
  by (auto simp: getSourceArrows_offsets_def near_def)

lemma turn_vec_onto:
  assumes "rotation a < 4" "near v"
  shows "\<exists>e. near e \<and> turn_vec a e = v"
proof -
  obtain vx vy where v: "v = (vx, vy)" by (cases v)
  define m where "m = (\<lambda>t::int. if flipped a then - t else t)"
  from lt4[OF assms(1)] consider "rotation a = 0" | "rotation a = 1" | "rotation a = 2" | "rotation a = 3"
    by auto
  then show ?thesis
  proof cases
    case 1
    with assms(2) have "near (m vx, vy) \<and> turn_vec a (m vx, vy) = v"
      by (auto simp: near_def turn_vec_def getArrowRelative_turn_def v m_def)
    then show ?thesis by blast
  next
    case 2
    with assms(2) have "near (m (- vy), vx) \<and> turn_vec a (m (- vy), vx) = v"
      by (auto simp: near_def turn_vec_def getArrowRelative_turn_def v m_def)
    then show ?thesis by blast
  next
    case 3
    with assms(2) have "near (m (- vx), - vy) \<and> turn_vec a (m (- vx), - vy) = v"
      by (auto simp: near_def turn_vec_def getArrowRelative_turn_def v m_def)
    then show ?thesis by blast
  next
    case 4
    with assms(2) have "near (m vy, - vx) \<and> turn_vec a (m vy, - vx) = v"
      by (auto simp: near_def turn_vec_def getArrowRelative_turn_def v m_def)
    then show ?thesis by blast
  qed
qed

text \<open>
  Claim C5. For non-empty cells s and c inside chunks of the grid, c having a rotation in
  0..3: s is among \<^verbatim>\<open>getSourceArrows\<close> of c exactly when c is among
  \<^verbatim>\<open>getTargetArrows\<close> of s.
\<close>

theorem source_iff_target:
  assumes s: "sc \<in> set (chunkList g)" "inChunk sx sy" "arrowType (getArrow g sc sx sy) > 0"
      and c: "cc \<in> set (chunkList g)" "inChunk cx cy" "arrowType (getArrow g cc cx cy) > 0"
      and r: "rotation (getArrow g cc cx cy) < 4"
  shows "(sc, sx, sy) \<in> set (getSourceArrows g cc (getArrow g cc cx cy) cx cy) \<longleftrightarrow>
         (cc, cx, cy) \<in> set (getTargetArrows g sc (getArrow g sc sx sy) sx sy)"
    (is "?S \<longleftrightarrow> ?T")
proof
  assume ?S then show ?T by (simp add: getSourceArrows_iff)
next
  assume T: ?T
  define sa where "sa = getArrow g sc sx sy"
  define ca where "ca = getArrow g cc cx cy"
  from T obtain dx dy where "(dx, dy) \<in> set (getTargetArrows_offsets (arrowType sa))"
      "getArrowRelative g sc sa sx sy dx dy = Some (cc, cx, cy)"
    by (auto simp: getTargetArrows_iff sa_def)
  then obtain d where d: "d \<in> set (getTargetArrows_offsets (arrowType sa))"
      "getArrowRelative g sc sa sx sy (fst d) (snd d) = Some (cc, cx, cy)"
    by force
  have nd: "near (fst d, snd d)" using offsets_near[OF d(1)] by simp
  from d(2) have w: "world (cc, cx, cy) =
      (fst (world (sc, sx, sy)) + fst (turn_vec sa d), snd (world (sc, sx, sy)) + snd (turn_vec sa d))"
    using getArrowRelative_world[OF s(2) nd, of g sc sa cc cx cy] by simp
  define v where "v = (- fst (turn_vec sa d), - snd (turn_vec sa d))"
  have "near v" using near_turn_vec[OF nd, of sa] by (simp add: v_def near_def)
  with turn_vec_onto[of ca v] r obtain e where e: "near e" "turn_vec ca e = v"
    by (auto simp: ca_def)
  have ne: "near (fst e, snd e)" using e(1) by simp
  have "world (sc, sx, sy) =
      (fst (world (cc, cx, cy)) + fst (turn_vec ca e), snd (world (cc, cx, cy)) + snd (turn_vec ca e))"
    by (simp add: w e(2) v_def)
  with s have ret: "getArrowRelative g cc ca cx cy (fst e) (snd e) = Some (sc, sx, sy)"
    using getArrowRelative_world[OF c(2) ne, of g cc ca sc sx sy] by simp
  from near_cases[OF e(1)] show ?S
  proof
    assume "e = (0, 0)"
    then have "turn_vec ca e = (0, 0)"
      by (simp add: turn_vec_def getArrowRelative_turn_def)
    with e(2) have "v = (0, 0)" by simp
    then have "world (cc, cx, cy) = world (sc, sx, sy)" by (simp add: w v_def prod_eq_iff)
    with world_inj[OF c(2) s(2), of cc sc] have "(sc, sx, sy) = (cc, cx, cy)" by simp
    with T show ?S by (simp add: getSourceArrows_iff)
  next
    assume "e \<in> set getSourceArrows_offsets"
    then have "(fst e, snd e) \<in> set getSourceArrows_offsets" by simp
    with ret T show ?S unfolding getSourceArrows_iff ca_def by fastforce
  qed
qed

text \<open>The two arrows of \<open>edgeMap\<close>, across the chunk border.\<close>

theorem source_iff_target_witness:
  "(0, 0) \<in> set (chunkList edgeMap) \<and> inChunk 15 3 \<and> arrowType (getArrow edgeMap (0, 0) 15 3) > 0
   \<and> (1, 0) \<in> set (chunkList edgeMap) \<and> inChunk 0 3 \<and> arrowType (getArrow edgeMap (1, 0) 0 3) > 0
   \<and> rotation (getArrow edgeMap (1, 0) 0 3) < 4
   \<and> ((1, 0), 0, 3) \<in> set (getTargetArrows edgeMap (0, 0) (getArrow edgeMap (0, 0) 15 3) 15 3)
   \<and> ((0, 0), 15, 3) \<in> set (getSourceArrows edgeMap (1, 0) (getArrow edgeMap (1, 0) 0 3) 0 3)"
proof -
  have h: "(0, 0) \<in> set (chunkList edgeMap)" "inChunk 15 3" "arrowType (getArrow edgeMap (0, 0) 15 3) > 0"
    "(1, 0) \<in> set (chunkList edgeMap)" "inChunk 0 3" "arrowType (getArrow edgeMap (1, 0) 0 3) > 0"
    "rotation (getArrow edgeMap (1, 0) 0 3) < 4"
    by (simp_all add: edgeMap_cells placedArrow_fields inChunk_def CHUNK_SIZE_def)
  have t: "((1, 0), 0, 3) \<in> set (getTargetArrows edgeMap (0, 0) (getArrow edgeMap (0, 0) 15 3) 15 3)"
    by (simp add: getTargetArrows_def getTargetArrows_offsets_def edgeMap_cells placedArrow_fields
        getArrowRelative_def getArrowRelative_turn_def getArrowRelative_chunk_def adjacentChunks_def
        compass_def CHUNK_SIZE_def)
  from source_iff_target[OF h] t h show ?thesis by simp
qed

subsection \<open>One tick of the cellular automaton\<close>

lemma fold_product:
  "fold f (List.product xs ys) = fold (\<lambda>x. fold (\<lambda>y. f (x, y)) ys) xs"
proof
  fix s show "fold f (List.product xs ys) s = fold (\<lambda>x. fold (\<lambda>y. f (x, y)) ys) xs s"
    by (induction xs arbitrary: s) (simp_all add: fold_map comp_def)
qed

lemma forEachArrow_flat:
  "forEachArrow body chunks s = fold (\<lambda>(chunk, x, y). body chunk x y) (allArrows chunks) s"
  by (simp add: forEachArrow_def allArrows_def fold_map fold_product comp_def)

lemma set_allArrows:
  "set (allArrows chunks) = {(chunk, x, y). chunk \<in> set chunks \<and> inChunk x y}"
  by (force simp: allArrows_def inChunk_def CHUNK_SIZE_def)

lemma distinct_allArrows: "distinct chunks \<Longrightarrow> distinct (allArrows chunks)"
  unfolding allArrows_def
  by (auto simp: distinct_map distinct_product inj_on_def)

lemma sameShape_refl: "sameShape g g"
  by (simp add: sameShape_def sameButCount_def)

lemma sameShape_fields:
  assumes "sameShape g g'"
  shows "arrowType (getArrowAt g' r) = arrowType (getArrowAt g r)"
    "rotation (getArrowAt g' r) = rotation (getArrowAt g r)"
    "flipped (getArrowAt g' r) = flipped (getArrowAt g r)"
    "medalType (getArrowAt g' r) = medalType (getArrowAt g r)"
    "active (getArrowAt g' r) = active (getArrowAt g r)"
    "lastState (getArrowAt g' r) = lastState (getArrowAt g r)"
    "chunkList g' = chunkList g"
proof -
  from assms have e: "sameButCount (getArrowAt g r) (getArrowAt g' r)"
    and c: "chunkList g' = chunkList g"
    unfolding sameShape_def by blast+
  from e show "arrowType (getArrowAt g' r) = arrowType (getArrowAt g r)"
    "rotation (getArrowAt g' r) = rotation (getArrowAt g r)"
    "flipped (getArrowAt g' r) = flipped (getArrowAt g r)"
    "medalType (getArrowAt g' r) = medalType (getArrowAt g r)"
    "active (getArrowAt g' r) = active (getArrowAt g r)"
    "lastState (getArrowAt g' r) = lastState (getArrowAt g r)"
    by (simp_all add: sameButCount_def)
  show "chunkList g' = chunkList g" by (rule c)
qed

lemma getArrow_At: "getArrow g c x y = getArrowAt g (c, x, y)"
  by (simp add: getArrowAt_def)

lemma getArrowAt_setArrow:
  "getArrowAt (setArrow g r a) r' = (if r' = r then a else getArrowAt g r')"
  by (cases r') (simp add: getArrowAt_def setArrow_def getArrow_def)

lemma chunkList_setArrow: "chunkList (setArrow g r a) = chunkList g"
  by (simp add: setArrow_def)

lemma sameShape_getArrowRelative:
  assumes "sameShape g g'" "rotation a' = rotation a" "flipped a' = flipped a"
  shows "getArrowRelative g' c a' x y dx dy = getArrowRelative g c a x y dx dy"
proof -
  have t: "getArrowRelative_turn a' x y dx dy = getArrowRelative_turn a x y dx dy"
    using assms(2,3) by (simp add: getArrowRelative_turn_def)
  have k: "getArrowRelative_chunk g' c u v = getArrowRelative_chunk g c u v" for u v
    using sameShape_fields(7)[OF assms(1)]
    by (simp add: getArrowRelative_chunk_def adjacentChunks_def)
  show ?thesis
    unfolding getArrowRelative_def t k getArrow_At sameShape_fields(1)[OF assms(1)] ..
qed

lemma sameShape_resolve: "sameShape g g' \<Longrightarrow> resolve g' s d = resolve g s d"
  unfolding resolve_def
  by (rule sameShape_getArrowRelative) (simp_all add: sameShape_fields)

lemma sameShape_trans: "sameShape g g' \<Longrightarrow> sameShape g' g'' \<Longrightarrow> sameShape g g''"
  unfolding sameShape_def sameButCount_def by simp

lemma sendSignal_sameShape: "sameShape g (sendSignal g c a x y dx dy)"
  by (auto simp: sendSignal_def sameShape_def sameButCount_def getArrowAt_setArrow
        chunkList_setArrow getArrow_At split: option.splits)

lemma sendSignal_count:
  "signalCount (getArrowAt (sendSignal g c a x y dx dy) r) =
     signalCount (getArrowAt g r) + (if getArrowRelative g c a x y dx dy = Some r then 1 else 0)"
  by (auto simp: sendSignal_def getArrowAt_setArrow getArrow_At split: option.splits)

lemma sends_fold:
  assumes "sameShape g0 g"
  shows "sameShape g0 (fold (\<lambda>(dx, dy) g. sendSignal g c a x y dx dy) ds g)
       \<and> signalCount (getArrowAt (fold (\<lambda>(dx, dy) g. sendSignal g c a x y dx dy) ds g) r) =
           signalCount (getArrowAt g r)
           + length (filter (\<lambda>d. getArrowRelative g0 c a x y (fst d) (snd d) = Some r) ds)"
  using assms
proof (induction ds arbitrary: g)
  case Nil
  then show ?case by simp
next
  case (Cons d ds)
  obtain dx dy where d: "d = (dx, dy)" by (cases d)
  let ?g = "sendSignal g c a x y dx dy"
  have s: "sameShape g0 ?g"
    by (rule sameShape_trans[OF Cons.prems sendSignal_sameShape])
  have r: "getArrowRelative g c a x y dx dy = getArrowRelative g0 c a x y dx dy"
    using sameShape_getArrowRelative[OF Cons.prems] by simp
  show ?case
    using Cons.IH[OF s] by (simp add: d sendSignal_count r)
qed

lemma resolve_any_arrow:
  assumes "rotation a = rotation (getArrowAt g0 (c, x, y))" "flipped a = flipped (getArrowAt g0 (c, x, y))"
  shows "getArrowRelative g0 c a x y dx dy = resolve g0 (c, x, y) (dx, dy)"
  unfolding resolve_def fst_conv snd_conv
  by (rule sameShape_getArrowRelative[OF sameShape_refl assms])

lemma sendsOf_received:
  "length (filter (\<lambda>(s, d). resolve g0 s d = Some r) (map (Pair s0) ds)) =
   length (filter (\<lambda>d. resolve g0 s0 d = Some r) ds)"
  by (induction ds) simp_all

lemma updateCA_send_step:
  assumes "sameShape g0 g"
  shows "sameShape g0 (updateCA_send c x y g)
       \<and> signalCount (getArrowAt (updateCA_send c x y g) r) =
           signalCount (getArrowAt g r)
           + length (filter (\<lambda>(s, d). resolve g0 s d = Some r) (sendsOf g0 (c, x, y)))"
proof -
  define a where "a = getArrowAt g (c, x, y)"
  define a0 where "a0 = getArrowAt g0 (c, x, y)"
  have f1: "arrowType a = arrowType a0" unfolding a_def a0_def by (rule sameShape_fields(1)[OF assms])
  have f2: "active a = active a0" unfolding a_def a0_def by (rule sameShape_fields(5)[OF assms])
  have f3: "rotation a = rotation a0" unfolding a_def a0_def by (rule sameShape_fields(2)[OF assms])
  have f4: "flipped a = flipped a0" unfolding a_def a0_def by (rule sameShape_fields(3)[OF assms])
  have e: "(\<lambda>d. getArrowRelative g0 c a x y (fst d) (snd d) = Some r) = (\<lambda>d. resolve g0 (c, x, y) d = Some r)"
    using resolve_any_arrow[of a g0 c x y] f3 f4 by (simp add: a0_def)
  show ?thesis
  proof (cases "arrowType a0 > 0 \<and> active a0")
    case True
    then have u: "updateCA_send c x y g =
        fold (\<lambda>(dx, dy) g. sendSignal g c a x y dx dy) (updateCA_offsets (arrowType a0)) g"
      by (simp add: updateCA_send_def getArrow_At a_def[symmetric] f1 f2 Let_def)
    have so: "sendsOf g0 (c, x, y) = map (Pair (c, x, y)) (updateCA_offsets (arrowType a0))"
      using True by (simp add: sendsOf_def a0_def[symmetric])
    show ?thesis
      unfolding u so sendsOf_received
      using sends_fold[OF assms, of c a x y "updateCA_offsets (arrowType a0)" r]
      unfolding e .
  next
    case False
    then have u: "updateCA_send c x y g = g"
      by (auto simp: updateCA_send_def getArrow_At a_def[symmetric] f1 f2 Let_def)
    have so: "sendsOf g0 (c, x, y) = []"
      using False by (auto simp: sendsOf_def a0_def[symmetric])
    show ?thesis unfolding u so using assms by simp
  qed
qed

lemma pass1_fold:
  assumes "sameShape g0 g"
  shows "sameShape g0 (fold (\<lambda>(c, x, y). updateCA_send c x y) rs g)
       \<and> signalCount (getArrowAt (fold (\<lambda>(c, x, y). updateCA_send c x y) rs g) r) =
           signalCount (getArrowAt g r) + received g0 rs r"
  using assms
proof (induction rs arbitrary: g)
  case Nil
  then show ?case by (simp add: received_def)
next
  case (Cons s rs)
  obtain c x y where s: "s = (c, x, y)" by (cases s) auto
  from updateCA_send_step[OF Cons.prems, of c x y r] Cons.IH[of "updateCA_send c x y g"]
  show ?case by (simp add: s received_def)
qed

lemma updateCA_pass1_effect:
  "sameShape g (updateCA_pass1 g)"
  "signalCount (getArrowAt (updateCA_pass1 g) r) =
     signalCount (getArrowAt g r) + received g (allArrows (chunkList g)) r"
  using pass1_fold[OF sameShape_refl, of g "allArrows (chunkList g)" r]
  by (simp_all add: updateCA_pass1_def forEachArrow_flat)

lemma updateCA_activate_at:
  "getArrowAt (updateCA_activate c x y g) r =
     (if r = (c, x, y) \<and> arrowType (getArrowAt g r) > 0 then updateCA_cell (getArrowAt g r)
      else getArrowAt g r)"
  by (auto simp: updateCA_activate_def Let_def getArrow_At getArrowAt_setArrow)

lemma arrowType_updateCA_cell: "arrowType (updateCA_cell a) = arrowType a"
  by (simp add: updateCA_cell_def Let_def)

lemma pass2_fold:
  assumes "distinct rs"
  shows "getArrowAt (fold (\<lambda>(c, x, y). updateCA_activate c x y) rs g) r =
     (if r \<in> set rs \<and> arrowType (getArrowAt g r) > 0 then updateCA_cell (getArrowAt g r)
      else getArrowAt g r)"
  using assms
proof (induction rs arbitrary: g)
  case Nil
  then show ?case by simp
next
  case (Cons s rs)
  obtain c x y where s: "s = (c, x, y)" by (cases s) auto
  from Cons.prems have d: "distinct rs" "s \<notin> set rs" by simp_all
  show ?case
    using Cons.IH[OF d(1), of "updateCA_activate c x y g"] d(2)
    by (auto simp: s updateCA_activate_at arrowType_updateCA_cell)
qed

lemma updateCA_at:
  assumes "distinct (chunkList g)" "fst r \<in> set (chunkList g)" "inChunk (fst (snd r)) (snd (snd r))"
    "arrowType (getArrowAt g r) > 0"
  shows "getArrowAt (updateCA g) r = updateCA_cell (getArrowAt (updateCA_pass1 g) r)"
proof -
  have c: "chunkList (updateCA_pass1 g) = chunkList g"
    using sameShape_fields(7)[OF updateCA_pass1_effect(1)] .
  have m: "r \<in> set (allArrows (chunkList g))"
    using assms(2,3) by (cases r) (auto simp: set_allArrows)
  have t: "arrowType (getArrowAt (updateCA_pass1 g) r) > 0"
    using assms(4) sameShape_fields(1)[OF updateCA_pass1_effect(1), of g r] by simp
  show ?thesis
    unfolding updateCA_def Let_def forEachArrow_flat c
    using pass2_fold[OF distinct_allArrows[OF assms(1)], of "updateCA_pass1 g" r] m t by simp
qed

lemma updateCA_cell_fields:
  "active (updateCA_cell a) = updateCA_active (medalType a) (signalCount a) (active a)"
  "signalCount (updateCA_cell a) = 0"
  "lastState (updateCA_cell a) =
     \<lparr>stateActive = updateCA_active (medalType a) (signalCount a) (active a),
      stateSignalCount = signalCount a\<rparr>"
  "medalType (updateCA_cell a) = medalType a"
  by (simp_all add: updateCA_cell_def Let_def copyState_def)

lemma updateCA_cell_at:
  assumes "distinct (chunkList g)" "chunk \<in> set (chunkList g)" "inChunk x y"
    "arrowType (getArrow g chunk x y) > 0"
  shows "getArrow (updateCA g) chunk x y = updateCA_cell (getArrow (updateCA_pass1 g) chunk x y)"
    and "medalType (getArrow (updateCA_pass1 g) chunk x y) = medalType (getArrow g chunk x y)"
    and "active (getArrow (updateCA_pass1 g) chunk x y) = active (getArrow g chunk x y)"
    and "signalCount (getArrow (updateCA_pass1 g) chunk x y) =
           signalCount (getArrow g chunk x y) + received g (allArrows (chunkList g)) (chunk, x, y)"
proof -
  show "getArrow (updateCA g) chunk x y = updateCA_cell (getArrow (updateCA_pass1 g) chunk x y)"
    unfolding getArrow_At using assms updateCA_at[of g "(chunk, x, y)"] by (simp add: getArrow_At)
  show "medalType (getArrow (updateCA_pass1 g) chunk x y) = medalType (getArrow g chunk x y)"
    unfolding getArrow_At by (rule sameShape_fields(4)[OF updateCA_pass1_effect(1)])
  show "active (getArrow (updateCA_pass1 g) chunk x y) = active (getArrow g chunk x y)"
    unfolding getArrow_At by (rule sameShape_fields(5)[OF updateCA_pass1_effect(1)])
  show "signalCount (getArrow (updateCA_pass1 g) chunk x y) =
           signalCount (getArrow g chunk x y) + received g (allArrows (chunkList g)) (chunk, x, y)"
    unfolding getArrow_At by (rule updateCA_pass1_effect(2))
qed

lemma sourceMap_hyps:
  "distinct (chunkList sourceMap)" "(0, 0) \<in> set (chunkList sourceMap)" "inChunk 2 2"
  "arrowType (getArrow sourceMap (0, 0) 2 2) > 0"
  by (simp_all add: sourceMap_cells placedArrow_fields inChunk_def CHUNK_SIZE_def)

text \<open>
  Claim C2. For a non-empty cell of a grid whose chunks are distinct, with fn its logic
  function, prev its \<^verbatim>\<open>active\<close> before the tick and n its \<^verbatim>\<open>signalCount\<close> after the
  first pass of the tick (the count before the tick plus the signals sent to it), one
  \<^verbatim>\<open>updateCA\<close> sets \<^verbatim>\<open>active\<close> by the activation table for fn in 0..6 and leaves
  \<^verbatim>\<open>signalCount\<close> at 0.
\<close>

theorem updateCA_activation_table:
  assumes "distinct (chunkList g)" "chunk \<in> set (chunkList g)" "inChunk x y"
    "arrowType (getArrow g chunk x y) > 0"
    and "fn = medalType (getArrow g chunk x y)"
    and "prev = active (getArrow g chunk x y)"
    and "n = signalCount (getArrow (updateCA_pass1 g) chunk x y)"
    and "act = active (getArrow (updateCA g) chunk x y)"
  shows "(fn = 0 \<longrightarrow> act = (n > 0)) \<and> (fn = 1 \<longrightarrow> act = True) \<and> (fn = 2 \<longrightarrow> act = (n = 0))
       \<and> (fn = 3 \<longrightarrow> act = (n \<ge> 2)) \<and> (fn = 4 \<longrightarrow> act = odd n)
       \<and> (fn = 5 \<longrightarrow> act = (if n > 0 then \<not> prev else prev))
       \<and> (fn = 6 \<longrightarrow> act = (if n > 0 then even n else prev))
       \<and> signalCount (getArrow (updateCA g) chunk x y) = 0
       \<and> n = signalCount (getArrow g chunk x y) + received g (allArrows (chunkList g)) (chunk, x, y)"
proof -
  note c = updateCA_cell_at[OF assms(1-4)]
  have a: "act = updateCA_active fn n prev"
    unfolding assms(8) c(1) updateCA_cell_fields c(2) c(3) assms(5,6,7) ..
  have z: "signalCount (getArrow (updateCA g) chunk x y) = 0"
    unfolding c(1) by (rule updateCA_cell_fields(2))
  have m: "n = signalCount (getArrow g chunk x y) + received g (allArrows (chunkList g)) (chunk, x, y)"
    unfolding assms(7) by (rule c(4))
  from a z m show ?thesis
    by (simp add: updateCA_active_def odd_iff_mod_2_eq_one even_iff_mod_2_eq_zero)
qed

text \<open>The constant source of \<open>sourceMap\<close> switches on.\<close>

theorem updateCA_activation_table_witness:
  "distinct (chunkList sourceMap) \<and> (0, 0) \<in> set (chunkList sourceMap) \<and> inChunk 2 2
   \<and> arrowType (getArrow sourceMap (0, 0) 2 2) > 0
   \<and> medalType (getArrow sourceMap (0, 0) 2 2) = 1
   \<and> active (getArrow (updateCA sourceMap) (0, 0) 2 2) = True
   \<and> signalCount (getArrow (updateCA sourceMap) (0, 0) 2 2) = 0"
  using updateCA_activation_table[OF sourceMap_hyps refl refl refl refl] sourceMap_hyps
  by (simp add: sourceMap_cells placedArrow_fields)

text \<open>
  Claim C9 as stated fails: after one tick of \<open>sourceMap\<close> the snapshot of the constant
  source holds \<^verbatim>\<open>active = true\<close>, while the cell was inactive before the tick.
\<close>

theorem lastState_previous_active_counterexample:
  "stateActive (lastState (getArrow (updateCA sourceMap) (0, 0) 2 2))
     \<noteq> active (getArrow sourceMap (0, 0) 2 2)"
  unfolding updateCA_cell_at(1)[OF sourceMap_hyps] updateCA_cell_fields
    updateCA_cell_at(2)[OF sourceMap_hyps]
  by (simp add: sourceMap_cells placedArrow_fields updateCA_active_def)

text \<open>
  Claim C9, amended. After a CA tick the \<^verbatim>\<open>lastState\<close> of every non-empty cell holds the
  \<^verbatim>\<open>active\<close> value that this tick's activation update has just computed, together with
  the \<^verbatim>\<open>signalCount\<close> the cell had accumulated before the reset.
\<close>

theorem lastState_snapshot:
  assumes "distinct (chunkList g)" "chunk \<in> set (chunkList g)" "inChunk x y"
    "arrowType (getArrow g chunk x y) > 0"
  shows "lastState (getArrow (updateCA g) chunk x y) =
           \<lparr>stateActive = active (getArrow (updateCA g) chunk x y),
            stateSignalCount = signalCount (getArrow (updateCA_pass1 g) chunk x y)\<rparr>"
  unfolding updateCA_cell_at(1)[OF assms] updateCA_cell_fields ..

text \<open>The constant source of \<open>sourceMap\<close>.\<close>

theorem lastState_snapshot_witness:
  "distinct (chunkList sourceMap) \<and> (0, 0) \<in> set (chunkList sourceMap) \<and> inChunk 2 2
   \<and> arrowType (getArrow sourceMap (0, 0) 2 2) > 0
   \<and> lastState (getArrow (updateCA sourceMap) (0, 0) 2 2) =
       \<lparr>stateActive = active (getArrow (updateCA sourceMap) (0, 0) 2 2),
        stateSignalCount = signalCount (getArrow (updateCA_pass1 sourceMap) (0, 0) 2 2)\<rparr>"
  using lastState_snapshot[OF sourceMap_hyps] sourceMap_hyps by simp

subsection \<open>The second pass of the node simulator\<close>

lemma fold_pointwise:
  "distinct ns \<Longrightarrow>
   fold (\<lambda>n h. h(n := f (h n))) ns h m = (if m \<in> set ns then f (h m) else h m)"
  by (induction ns arbitrary: h) auto

lemma updateNodes_at:
  "distinct ns \<Longrightarrow> nd \<in> set ns \<Longrightarrow>
   updateNodes ns h nd = updateNodes_cell (updateNodes_pass1 ns h nd)"
  unfolding updateNodes_def by (simp add: fold_pointwise)

lemma updateNodes_cell_fields:
  "signals (updateNodes_cell b) =
     take (length (signals b))
       (updateNodes_active (nodeType b) (nodeSignalCount b) (lastSignal b) # signals b)"
  "lastSignalCount (updateNodes_cell b) = nodeSignalCount b"
  "nodeSignalCount (updateNodes_cell b) = 0"
  by (simp_all add: updateNodes_cell_def signals_insert_def Let_def)

lemma updateNodes_active_eq: "updateNodes_active fn n prev = updateCA_active fn n prev"
  by (simp add: updateNodes_active_def updateCA_active_def)

text \<open>
  Claim C3. The \<^verbatim>\<open>switch\<close> of \<^verbatim>\<open>updateNodes\<close> computes, for every logic function, count
  and previous value, the same boolean as the chain of tests in \<^verbatim>\<open>updateCA\<close>; and for
  every node of the node list the second pass computes it from the node's
  \<^verbatim>\<open>signalCount\<close> and \<^verbatim>\<open>lastSignal\<close> as the first pass left them, puts it in front of
  the history, whose length stays, records the count in \<^verbatim>\<open>lastSignalCount\<close> and resets
  \<^verbatim>\<open>signalCount\<close> to 0.
\<close>

theorem node_activation_same_table:
  "updateNodes_active fn n prev = updateCA_active fn n prev
   \<and> (distinct ns \<and> nd \<in> set ns \<longrightarrow>
        signals (updateNodes ns h nd) =
          take (length (signals (updateNodes_pass1 ns h nd)))
            (updateNodes_active (nodeType (updateNodes_pass1 ns h nd))
               (nodeSignalCount (updateNodes_pass1 ns h nd))
               (lastSignal (updateNodes_pass1 ns h nd))
             # signals (updateNodes_pass1 ns h nd))
        \<and> lastSignalCount (updateNodes ns h nd) =
            nodeSignalCount (updateNodes_pass1 ns h nd)
        \<and> nodeSignalCount (updateNodes ns h nd) = 0)"
  using updateNodes_active_eq updateNodes_at[of ns nd h] updateNodes_cell_fields
  by simp

text \<open>A single constant-source node of size 1.\<close>

theorem node_activation_same_table_witness:
  "distinct [0::nat] \<and> 0 \<in> set [0::nat]
   \<and> signals (updateNodes [0] (\<lambda>n. newLogicNode [((0, 0), 2, 2)] 1 1) 0) = [True]
   \<and> nodeSignalCount (updateNodes [0] (\<lambda>n. newLogicNode [((0, 0), 2, 2)] 1 1) 0) = 0"
  using node_activation_same_table[of 1 0 False "[0]" 0 "\<lambda>n. newLogicNode [((0, 0), 2, 2)] 1 1"]
  by (simp add: updateNodes_pass1_def updateNodes_send_def signals_at_def newLogicNode_def
      updateNodes_active_def Let_def)

subsection \<open>Building the node graph\<close>






























































end
